theory Spec2Isabelle
  imports Main "HOL-Library.Sublist"
begin

section \<open>Calls, faults and deferred computations\<close>

text \<open>
  The repository is a TypeScript library: a two-variant result value (\<open>Result\<close>, built by
  \<open>okSync\<close> and \<open>errSync\<close>) and the class \<open>ResultAsync\<close> that wraps a native promise of
  such a result. The class and the functions \<open>toAsync\<close>, \<open>ok\<close>, \<open>err\<close>, \<open>safeTry\<close> and
  \<open>infer\<close> are in \<open>result-async.ts\<close>; the synchronous \<open>Result\<close> they import from
  \<open>../sync/result-sync\<close> is not among the sources and is modelled from the specification.

  A call in JavaScript either returns a value or throws one. Any value can be thrown, so
  the type of faults \<open>'x\<close> is a parameter.
\<close>

datatype ('a, 'x) completion = Returns 'a | Throws 'x

text \<open>
  A caller-supplied function may have side effects (set a flag, record a call, build
  further objects), so it takes the world it runs in and gives the world back:
  \<open>'a \<Rightarrow> 'w \<Rightarrow> ('b, 'x) completion \<times> 'w\<close>. That a function was not invoked then shows in
  the world: none of its effects took place, whatever they would have been.
\<close>

type_synonym ('a, 'b, 'x, 'w) callback = "'a \<Rightarrow> 'w \<Rightarrow> ('b, 'x) completion \<times> 'w"

text \<open>
  A native promise is represented by what it settles to: it is fulfilled with a value,
  rejected with a reason, or never settles. Scheduling is not modelled: \<open>then\<close> gives
  the settlement of the derived promise together with the world after its reaction job
  has run. The jobs of one chain run in the order the chain settles, and the world
  passed along is the world each job runs in.
\<close>

datatype ('a, 'x) promise = Pending | Fulfilled 'a | Rejected 'x

text \<open>
  What a reaction handler returns resolves the derived promise: a promise (a thenable) is
  adopted, anything else fulfils it.
\<close>

datatype ('a, 'x) resolution = Value 'a | Thenable "('a, 'x) promise"

fun resolve_with :: "(('a, 'x) resolution, 'x) completion \<Rightarrow> ('a, 'x) promise" where
  "resolve_with (Returns (Value a)) = Fulfilled a"
| "resolve_with (Returns (Thenable p)) = p"
| "resolve_with (Throws x) = Rejected x"

text \<open>A handler whose result is never a thenable: a \<open>Result\<close> or a boolean.\<close>

fun plain :: "('a, 'x) completion \<times> 'w \<Rightarrow> (('a, 'x) resolution, 'x) completion \<times> 'w" where
  "plain (Returns a, w) = (Returns (Value a), w)"
| "plain (Throws x, w) = (Throws x, w)"

text \<open>
  A handler whose result is a payload. Whether a value is a thenable is decided by the
  platform from the value itself. The payload type is a parameter of the model, so the
  platform's test on it is one too: \<open>thenable v\<close> is the promise that \<open>v\<close> is, if \<open>v\<close> is
  a thenable, and \<open>None\<close> otherwise. A thenable payload is adopted like any other.
\<close>

fun adopting ::
  "('a \<Rightarrow> ('a, 'x) promise option) \<Rightarrow> ('a, 'x) completion \<times> 'w \<Rightarrow>
   (('a, 'x) resolution, 'x) completion \<times> 'w" where
  "adopting thenable (Returns a, w) =
     (Returns (case thenable a of None \<Rightarrow> Value a | Some p \<Rightarrow> Thenable p), w)"
| "adopting thenable (Throws x, w) = (Throws x, w)"

text \<open>
  Payloads that are either a value that is not a thenable or a promise of such a value
  are the values of \<open>resolution\<close>; on them the platform's test is this one.
\<close>

definition thenable_value ::
  "('a, 'x) resolution \<Rightarrow> (('a, 'x) resolution, 'x) promise option" where
  "thenable_value v =
     (case v of
        Value a \<Rightarrow> None
      | Thenable p \<Rightarrow>
          Some (case p of
                  Pending \<Rightarrow> Pending
                | Fulfilled a \<Rightarrow> Fulfilled (Value a)
                | Rejected x \<Rightarrow> Rejected x))"

text \<open>Post-processing of the value a call returned; a thrown fault passes through.\<close>

fun returning :: "('a \<Rightarrow> 'b) \<Rightarrow> ('a, 'x) completion \<times> 'w \<Rightarrow> ('b, 'x) completion \<times> 'w" where
  "returning f (Returns a, w) = (Returns (f a), w)"
| "returning f (Throws x, w) = (Throws x, w)"

text \<open>\<open>Promise.resolve(v)\<close> for a value \<open>v\<close> that is not a thenable.\<close>

definition Promise_resolve :: "'a \<Rightarrow> ('a, 'x) promise" where
  "Promise_resolve v = Fulfilled v"

text \<open>
  \<open>p.then(onFulfilled, onRejected)\<close>: the handler matching the settlement of \<open>p\<close> runs and
  its completion resolves the derived promise; no handler runs while \<open>p\<close> is pending. An
  omitted handler is the identity for \<open>onFulfilled\<close> and the thrower for \<open>onRejected\<close>;
  \<open>p.catch(f)\<close> is \<open>p.then(undefined, f)\<close>.
\<close>

definition Identity :: "('a, ('a, 'x) resolution, 'x, 'w) callback" where
  "Identity a w = (Returns (Value a), w)"

definition Thrower :: "('x, ('a, 'x) resolution, 'x, 'w) callback" where
  "Thrower x w = (Throws x, w)"

definition Promise_then ::
  "('a, 'x) promise \<Rightarrow> ('a, ('b, 'x) resolution, 'x, 'w) callback \<Rightarrow>
   ('x, ('b, 'x) resolution, 'x, 'w) callback \<Rightarrow> 'w \<Rightarrow> ('b, 'x) promise \<times> 'w" where
  "Promise_then p onFulfilled onRejected w =
     (case p of
        Pending \<Rightarrow> (Pending, w)
      | Fulfilled a \<Rightarrow> (case onFulfilled a w of (c, w') \<Rightarrow> (resolve_with c, w'))
      | Rejected x \<Rightarrow> (case onRejected x w of (c, w') \<Rightarrow> (resolve_with c, w')))"

definition Promise_then1 ::
  "('a, 'x) promise \<Rightarrow> ('a, ('b, 'x) resolution, 'x, 'w) callback \<Rightarrow> 'w \<Rightarrow>
   ('b, 'x) promise \<times> 'w" where
  "Promise_then1 p onFulfilled w = Promise_then p onFulfilled Thrower w"

definition Promise_catch ::
  "('a, 'x) promise \<Rightarrow> ('x, ('a, 'x) resolution, 'x, 'w) callback \<Rightarrow> 'w \<Rightarrow>
   ('a, 'x) promise \<times> 'w" where
  "Promise_catch p onRejected w = Promise_then p Identity onRejected w"

text \<open>
  An \<open>async\<close> method that returns a promise: the promise the caller gets is resolved with
  the returned one, so it settles the same way.
\<close>

definition async_return :: "('a, 'x) promise \<times> 'w \<Rightarrow> ('a, 'x) promise \<times> 'w" where
  "async_return r = (case r of (p, w) \<Rightarrow> (resolve_with (Returns (Thenable p)), w))"

section \<open>The synchronous result\<close>

text \<open>Modelled from the spec: the type \<open>Result\<close> of \<open>../sync/result-sync\<close>, which is not among
  the sources. The specification gives it as a closed union of exactly two variants,
  \<open>Success(value)\<close> and \<open>Failure(error)\<close>; the code calls them Ok and Err.
\<close>

datatype ('o, 'e) Result = Ok 'o | Err 'e

text \<open>Modelled from the spec: the missing constructor \<open>okSync\<close>, \<open>success(value)\<close>.\<close>

definition okSync :: "'o \<Rightarrow> ('o, 'e) Result" where
  "okSync v = Ok v"

text \<open>Modelled from the spec: the missing constructor \<open>errSync\<close>, \<open>failure(error)\<close>.\<close>

definition errSync :: "'e \<Rightarrow> ('o, 'e) Result" where
  "errSync e = Err e"

text \<open>Modelled from the spec: the missing predicate \<open>Result.isOk\<close>, pure and without
  side effects: true for a Success, false for a Failure.\<close>

definition sync_isOk :: "('o, 'e) Result \<Rightarrow> bool" where
  "sync_isOk res = (case res of Ok v \<Rightarrow> True | Err e \<Rightarrow> False)"

text \<open>Modelled from the spec: the missing predicate \<open>Result.isErr\<close>, the dual of
  \<open>isOk\<close>.\<close>

definition sync_isErr :: "('o, 'e) Result \<Rightarrow> bool" where
  "sync_isErr res = (case res of Ok v \<Rightarrow> False | Err e \<Rightarrow> True)"

text \<open>Modelled from the spec: the missing \<open>Result.unwrap\<close>. It returns the success payload; on
  a Failure it signals the terminal-unwrap fault carrying the original failure payload.
  The package documentation says it "throws the error if Err" and the tests compare the
  rejection reason with the payload itself, so the fault is the payload.
\<close>

definition sync_unwrap :: "('o, 'e) Result \<Rightarrow> ('o, 'e) completion" where
  "sync_unwrap res = (case res of Ok v \<Rightarrow> Returns v | Err e \<Rightarrow> Throws e)"

text \<open>Modelled from the spec: the missing \<open>Result.unwrapOr\<close>, the success payload or the
  fallback if Failure; it never faults.\<close>

definition sync_unwrapOr :: "('o, 'e) Result \<Rightarrow> 'o \<Rightarrow> 'o" where
  "sync_unwrapOr res fallback = (case res of Ok v \<Rightarrow> v | Err e \<Rightarrow> fallback)"

text \<open>Modelled from the spec: the missing \<open>Result.match\<close>, which applies exactly one of the
  two supplied functions, chosen by the variant, and returns its result.\<close>

definition sync_match ::
  "('o, 'e) Result \<Rightarrow> ('o, 'r, 'x, 'w) callback \<Rightarrow> ('e, 'r, 'x, 'w) callback \<Rightarrow> 'w \<Rightarrow>
   ('r, 'x) completion \<times> 'w" where
  "sync_match res okFn errFn w = (case res of Ok v \<Rightarrow> okFn v w | Err e \<Rightarrow> errFn e w)"

text \<open>Modelled from the spec: the missing \<open>Result.map\<close>. If Success it returns
  \<open>success(fn(value))\<close>, if Failure the receiver unchanged; a fault raised by \<open>fn\<close>
  propagates to the caller uncaught.\<close>

definition sync_map ::
  "('o, 'e) Result \<Rightarrow> ('o, 'p, 'x, 'w) callback \<Rightarrow> 'w \<Rightarrow> (('p, 'e) Result, 'x) completion \<times> 'w" where
  "sync_map res fn w = (case res of Ok v \<Rightarrow> returning Ok (fn v w) | Err e \<Rightarrow> (Returns (Err e), w))"

text \<open>Modelled from the spec: the missing \<open>Result.mapErr\<close>, the dual of \<open>map\<close> over the
  failure side.\<close>

definition sync_mapErr ::
  "('o, 'e) Result \<Rightarrow> ('e, 'f, 'x, 'w) callback \<Rightarrow> 'w \<Rightarrow> (('o, 'f) Result, 'x) completion \<times> 'w" where
  "sync_mapErr res fn w = (case res of Ok v \<Rightarrow> (Returns (Ok v), w) | Err e \<Rightarrow> returning Err (fn e w))"

text \<open>Modelled from the spec: the missing \<open>Result.andThen\<close>. If Success it invokes
  \<open>fn(value)\<close> and returns that result directly; if Failure it short-circuits and \<open>fn\<close> is
  never invoked.\<close>

definition sync_andThen ::
  "('o, 'e) Result \<Rightarrow> ('o, ('p, 'e) Result, 'x, 'w) callback \<Rightarrow> 'w \<Rightarrow>
   (('p, 'e) Result, 'x) completion \<times> 'w" where
  "sync_andThen res fn w = (case res of Ok v \<Rightarrow> fn v w | Err e \<Rightarrow> (Returns (Err e), w))"

text \<open>Modelled from the spec: the missing \<open>Result.orElse\<close>, the dual of \<open>andThen\<close> over the
  failure side; it short-circuits on Success.\<close>

definition sync_orElse ::
  "('o, 'e) Result \<Rightarrow> ('e, ('o, 'f) Result, 'x, 'w) callback \<Rightarrow> 'w \<Rightarrow>
   (('o, 'f) Result, 'x) completion \<times> 'w" where
  "sync_orElse res fn w = (case res of Ok v \<Rightarrow> (Returns (Ok v), w) | Err e \<Rightarrow> fn e w)"

text \<open>Modelled from the spec: the missing \<open>Result.andTee\<close>. It invokes \<open>fn\<close> for its side
  effect only when Success; what \<open>fn\<close> returns is discarded and the original result is
  returned unchanged. If \<open>fn\<close> raises, the fault propagates uncaught.\<close>

definition sync_andTee ::
  "('o, 'e) Result \<Rightarrow> ('o, 'r, 'x, 'w) callback \<Rightarrow> 'w \<Rightarrow> (('o, 'e) Result, 'x) completion \<times> 'w" where
  "sync_andTee res fn w =
     (case res of Ok v \<Rightarrow> returning (\<lambda>r. Ok v) (fn v w) | Err e \<Rightarrow> (Returns (Err e), w))"

text \<open>Modelled from the spec: the missing \<open>Result.orTee\<close>, the same as \<open>andTee\<close> when
  Failure.\<close>

definition sync_orTee ::
  "('o, 'e) Result \<Rightarrow> ('e, 'r, 'x, 'w) callback \<Rightarrow> 'w \<Rightarrow> (('o, 'e) Result, 'x) completion \<times> 'w" where
  "sync_orTee res fn w =
     (case res of Ok v \<Rightarrow> (Returns (Ok v), w) | Err e \<Rightarrow> returning (\<lambda>r. Err e) (fn e w))"

section \<open>The class ResultAsync\<close>

text \<open>
  An instance has one field, \<open>private readonly _promise\<close>. Instances are objects with an
  identity, created by \<open>new ResultAsync(...)\<close>: the world holds the heap of the instances
  allocated so far, an instance is referred to by its address in it, and \<open>user\<close> is the
  rest of the program's state, which only caller-supplied functions change.

  The type parameters \<open>O\<close> and \<open>E\<close> of the class do not exist at run time. In the model
  the instances of one world carry success payloads of one type \<open>'o\<close> and failure
  payloads of one type \<open>'e\<close>, each as large as the program needs (a sum of the payload
  types it uses); so the transformer of \<open>map\<close> goes from \<open>'o\<close> to \<open>'o\<close>.
\<close>

type_synonym addr = nat

record ('o, 'e, 'x) ResultAsync =
  priv_promise :: "(('o, 'e) Result, 'x) promise"

record ('o, 'e, 'x, 'u) world =
  heap :: "('o, 'e, 'x) ResultAsync list"
  user :: 'u

text \<open>The constructor: \<open>new ResultAsync(_promise)\<close> allocates at the next free address.\<close>

definition new_ResultAsync ::
  "(('o, 'e) Result, 'x) promise \<Rightarrow> ('o, 'e, 'x, 'u) world \<Rightarrow> addr \<times> ('o, 'e, 'x, 'u) world" where
  "new_ResultAsync p w = (length (heap w), w\<lparr>heap := heap w @ [\<lparr>priv_promise = p\<rparr>]\<rparr>)"

text \<open>
  The field read \<open>self._promise\<close>. A program only holds addresses of allocated instances;
  an address beyond the heap denotes no object and is read as a promise that never
  settles.
\<close>

definition promise_of ::
  "('o, 'e, 'x, 'u) world \<Rightarrow> addr \<Rightarrow> (('o, 'e) Result, 'x) promise" where
  "promise_of w self = (if self < length (heap w) then priv_promise (heap w ! self) else Pending)"

text \<open>\<open>then(okFn, errFn)\<close>: \<open>return this._promise.then(okFn, errFn)\<close>. An omitted argument
  is passed on as omitted, which is \<open>Identity\<close> or \<open>Thrower\<close>.\<close>

definition then_async ::
  "addr \<Rightarrow> (('o, 'e) Result, ('r, 'x) resolution, 'x, ('o, 'e, 'x, 'u) world) callback \<Rightarrow>
   ('x, ('r, 'x) resolution, 'x, ('o, 'e, 'x, 'u) world) callback \<Rightarrow>
   ('o, 'e, 'x, 'u) world \<Rightarrow> ('r, 'x) promise \<times> ('o, 'e, 'x, 'u) world" where
  "then_async self okFn errFn w = Promise_then (promise_of w self) okFn errFn w"

text \<open>\<open>async isOk()\<close>: \<open>return this._promise.then((res) => res.isOk())\<close>.\<close>

definition isOk ::
  "addr \<Rightarrow> ('o, 'e, 'x, 'u) world \<Rightarrow> (bool, 'x) promise \<times> ('o, 'e, 'x, 'u) world" where
  "isOk self w =
     async_return (Promise_then1 (promise_of w self) (\<lambda>res w. (Returns (Value (sync_isOk res)), w)) w)"

text \<open>\<open>async isErr()\<close>: \<open>return this._promise.then((res) => res.isErr())\<close>.\<close>

definition isErr ::
  "addr \<Rightarrow> ('o, 'e, 'x, 'u) world \<Rightarrow> (bool, 'x) promise \<times> ('o, 'e, 'x, 'u) world" where
  "isErr self w =
     async_return (Promise_then1 (promise_of w self) (\<lambda>res w. (Returns (Value (sync_isErr res)), w)) w)"

text \<open>\<open>async unwrap()\<close>: \<open>return this._promise.then((res) => res.unwrap())\<close>. The handler
  returns the success payload itself, so a payload that is a thenable is adopted by the
  promise \<open>then\<close> derives; \<open>thenable\<close> is the platform's test on payloads. The fault
  \<open>res.unwrap()\<close> throws is the failure payload, so here faults and failure payloads are
  of one type.\<close>

definition unwrap ::
  "('o \<Rightarrow> ('o, 'e) promise option) \<Rightarrow> addr \<Rightarrow> ('o, 'e, 'e, 'u) world \<Rightarrow>
   ('o, 'e) promise \<times> ('o, 'e, 'e, 'u) world" where
  "unwrap thenable self w =
     async_return
       (Promise_then1 (promise_of w self) (\<lambda>res w. adopting thenable (sync_unwrap res, w)) w)"

text \<open>\<open>async unwrapOr(value)\<close>: \<open>return this._promise.then((res) => res.unwrapOr(value))\<close>.
  The handler returns the success payload or the fallback itself; either is adopted if it
  is a thenable.\<close>

definition unwrapOr ::
  "('o \<Rightarrow> ('o, 'x) promise option) \<Rightarrow> addr \<Rightarrow> 'o \<Rightarrow> ('o, 'e, 'x, 'u) world \<Rightarrow>
   ('o, 'x) promise \<times> ('o, 'e, 'x, 'u) world" where
  "unwrapOr thenable self val w =
     async_return
       (Promise_then1 (promise_of w self)
          (\<lambda>res w. adopting thenable (Returns (sync_unwrapOr res val), w)) w)"

text \<open>\<open>async match(args)\<close>: \<open>return this._promise.then((res) => res.match(args))\<close>, with the
  two callbacks \<open>args.ok\<close> and \<open>args.err\<close>. The handler returns what the callback returned,
  which resolves the derived promise like any handler result: the callbacks say whether
  they return a value or a thenable.\<close>

definition match ::
  "addr \<Rightarrow> ('o, ('r, 'x) resolution, 'x, ('o, 'e, 'x, 'u) world) callback \<Rightarrow>
   ('e, ('r, 'x) resolution, 'x, ('o, 'e, 'x, 'u) world) callback \<Rightarrow>
   ('o, 'e, 'x, 'u) world \<Rightarrow> ('r, 'x) promise \<times> ('o, 'e, 'x, 'u) world" where
  "match self args_ok args_err w =
     async_return
       (Promise_then1 (promise_of w self) (\<lambda>res w. sync_match res args_ok args_err w) w)"

text \<open>\<open>map(fn)\<close>: \<open>return new ResultAsync(this._promise.then((res) => res.map(fn)))\<close>.\<close>

definition map_async ::
  "addr \<Rightarrow> ('o, 'o, 'x, ('o, 'e, 'x, 'u) world) callback \<Rightarrow> ('o, 'e, 'x, 'u) world \<Rightarrow>
   addr \<times> ('o, 'e, 'x, 'u) world" where
  "map_async self fn w =
     (case Promise_then1 (promise_of w self) (\<lambda>res w. plain (sync_map res fn w)) w of
        (p, w') \<Rightarrow> new_ResultAsync p w')"

text \<open>\<open>mapErr(fn)\<close>: \<open>return new ResultAsync(this._promise.then((res) => res.mapErr(fn)))\<close>.\<close>

definition mapErr ::
  "addr \<Rightarrow> ('e, 'e, 'x, ('o, 'e, 'x, 'u) world) callback \<Rightarrow> ('o, 'e, 'x, 'u) world \<Rightarrow>
   addr \<times> ('o, 'e, 'x, 'u) world" where
  "mapErr self fn w =
     (case Promise_then1 (promise_of w self) (\<lambda>res w. plain (sync_mapErr res fn w)) w of
        (p, w') \<Rightarrow> new_ResultAsync p w')"

text \<open>
  What the transformer of \<open>andThen\<close> and \<open>orElse\<close> may return: an instance of \<open>ResultAsync\<close>
  (the \<open>instanceof\<close> test of the code), or anything else, which the code hands to the
  promise as it is: a promise of a result, or a result that is not a thenable. The
  declared overloads name the first two; the third is what the implementation does with a
  plain result.
\<close>

datatype ('o, 'e, 'x) transformed =
  IsResultAsync addr
| IsPromise "(('o, 'e) Result, 'x) promise"
| IsResult "('o, 'e) Result"

text \<open>The body of the \<open>ok\<close> branch of \<open>andThen\<close> (the \<open>err\<close> branch of \<open>orElse\<close>) after the
  call of \<open>fn\<close>: \<open>if (newValue instanceof ResultAsync) return newValue._promise; return
  newValue\<close>.\<close>

fun unwrap_instance ::
  "(('o, 'e, 'x) transformed, 'x) completion \<times> ('o, 'e, 'x, 'u) world \<Rightarrow>
   ((('o, 'e) Result, 'x) resolution, 'x) completion \<times> ('o, 'e, 'x, 'u) world" where
  "unwrap_instance (Returns (IsResultAsync newValue), w) = (Returns (Thenable (promise_of w newValue)), w)"
| "unwrap_instance (Returns (IsPromise newValue), w) = (Returns (Thenable newValue), w)"
| "unwrap_instance (Returns (IsResult newValue), w) = (Returns (Value newValue), w)"
| "unwrap_instance (Throws x, w) = (Throws x, w)"

text \<open>A transformer written as an arrow function whose body constructs an instance,
  such as \<open>(val) => ok(val * 2)\<close>: it returns the instance the constructing call
  returned.\<close>

definition instance_returned ::
  "addr \<times> 'w \<Rightarrow> (('o, 'e, 'x) transformed, 'x) completion \<times> 'w" where
  "instance_returned r = (case r of (a, w) \<Rightarrow> (Returns (IsResultAsync a), w))"

text \<open>\<open>andThen(fn)\<close>: the promise is \<open>this._promise.then((res) => res.match({ok: ..., err:
  (error) => Promise.resolve(errSync(error))}))\<close> and the result is \<open>new
  ResultAsync(promise)\<close>.\<close>

definition andThen ::
  "addr \<Rightarrow> ('o, ('o, 'e, 'x) transformed, 'x, ('o, 'e, 'x, 'u) world) callback \<Rightarrow>
   ('o, 'e, 'x, 'u) world \<Rightarrow> addr \<times> ('o, 'e, 'x, 'u) world" where
  "andThen self fn w =
     (case Promise_then1 (promise_of w self)
             (\<lambda>res w. sync_match res
                (\<lambda>okv w. unwrap_instance (fn okv w))
                (\<lambda>error w. (Returns (Thenable (Promise_resolve (errSync error))), w)) w) w of
        (promise, w') \<Rightarrow> new_ResultAsync promise w')"

text \<open>\<open>orElse(fn)\<close>: the same with the branches exchanged, \<open>ok: (ok) =>
  Promise.resolve(okSync(ok))\<close>.\<close>

definition orElse ::
  "addr \<Rightarrow> ('e, ('o, 'e, 'x) transformed, 'x, ('o, 'e, 'x, 'u) world) callback \<Rightarrow>
   ('o, 'e, 'x, 'u) world \<Rightarrow> addr \<times> ('o, 'e, 'x, 'u) world" where
  "orElse self fn w =
     (case Promise_then1 (promise_of w self)
             (\<lambda>res w. sync_match res
                (\<lambda>okv w. (Returns (Thenable (Promise_resolve (okSync okv))), w))
                (\<lambda>error w. unwrap_instance (fn error w)) w) w of
        (promise, w') \<Rightarrow> new_ResultAsync promise w')"

text \<open>\<open>andTee(fn)\<close>: \<open>return new ResultAsync(this._promise.then((res) => res.andTee(fn)))\<close>.\<close>

definition andTee ::
  "addr \<Rightarrow> ('o, 'r, 'x, ('o, 'e, 'x, 'u) world) callback \<Rightarrow> ('o, 'e, 'x, 'u) world \<Rightarrow>
   addr \<times> ('o, 'e, 'x, 'u) world" where
  "andTee self fn w =
     (case Promise_then1 (promise_of w self) (\<lambda>res w. plain (sync_andTee res fn w)) w of
        (p, w') \<Rightarrow> new_ResultAsync p w')"

text \<open>\<open>orTee(fn)\<close>: \<open>return new ResultAsync(this._promise.then((res) => res.orTee(fn)))\<close>.\<close>

definition orTee ::
  "addr \<Rightarrow> ('e, 'r, 'x, ('o, 'e, 'x, 'u) world) callback \<Rightarrow> ('o, 'e, 'x, 'u) world \<Rightarrow>
   addr \<times> ('o, 'e, 'x, 'u) world" where
  "orTee self fn w =
     (case Promise_then1 (promise_of w self) (\<lambda>res w. plain (sync_orTee res fn w)) w of
        (p, w') \<Rightarrow> new_ResultAsync p w')"

section \<open>The static functions\<close>

text \<open>\<open>toAsync(result)\<close>: \<open>return new ResultAsync(Promise.resolve(result))\<close>.\<close>

definition toAsync ::
  "('o, 'e) Result \<Rightarrow> ('o, 'e, 'x, 'u) world \<Rightarrow> addr \<times> ('o, 'e, 'x, 'u) world" where
  "toAsync result w = new_ResultAsync (Promise_resolve result) w"

text \<open>\<open>ok(okValue)\<close>: \<open>return new ResultAsync(Promise.resolve(okSync(okValue)))\<close>.\<close>

definition ok :: "'o \<Rightarrow> ('o, 'e, 'x, 'u) world \<Rightarrow> addr \<times> ('o, 'e, 'x, 'u) world" where
  "ok okValue w = new_ResultAsync (Promise_resolve (okSync okValue)) w"

text \<open>\<open>err(errorValue)\<close>: \<open>return new ResultAsync(Promise.resolve(errSync(errorValue)))\<close>.\<close>

definition err :: "'e \<Rightarrow> ('o, 'e, 'x, 'u) world \<Rightarrow> addr \<times> ('o, 'e, 'x, 'u) world" where
  "err errorValue w = new_ResultAsync (Promise_resolve (errSync errorValue)) w"

text \<open>A call that completes normally with the object it constructed.\<close>

definition returned :: "'a \<times> 'w \<Rightarrow> ('a, 'x) completion \<times> 'w" where
  "returned r = (case r of (a, w) \<Rightarrow> (Returns a, w))"

text \<open>
  \<open>safeTry(safeArgs)\<close> returns the function \<open>(...args) => new
  ResultAsync(safeArgs.try(...args).then((res) => okSync(res)).catch((error) => ...))\<close>.
  The argument list is one value of type \<open>'args\<close>. The call \<open>safeArgs.try(...args)\<close> is an
  ordinary call: it returns a promise or throws, and nothing encloses it. The \<open>catch\<close>
  handler returns \<open>errSync(safeArgs.catch(error))\<close> if \<open>safeArgs.catch\<close> is there and
  \<open>errSync(error)\<close> otherwise, so the fault becomes the failure payload and both are of
  one type.
\<close>

record ('args, 'o, 'e, 'u) safeArgs =
  try_op :: "('args, ('o, 'e) promise, 'e, ('o, 'e, 'e, 'u) world) callback"
  catch_op :: "('e, 'e, 'e, ('o, 'e, 'e, 'u) world) callback option"

definition safeTry ::
  "('args, 'o, 'e, 'u) safeArgs \<Rightarrow> ('args, addr, 'e, ('o, 'e, 'e, 'u) world) callback" where
  "safeTry safeArgs args w =
     (case try_op safeArgs args w of
        (Throws x, w1) \<Rightarrow> (Throws x, w1)
      | (Returns tried, w1) \<Rightarrow>
          (case Promise_then1 tried (\<lambda>res w. (Returns (Value (okSync res)), w)) w1 of
             (wrapped, w2) \<Rightarrow>
               (case Promise_catch wrapped
                       (\<lambda>error w. case catch_op safeArgs of
                                     Some translate \<Rightarrow> plain (returning errSync (translate error w))
                                   | None \<Rightarrow> (Returns (Value (errSync error)), w)) w2 of
                  (caught, w3) \<Rightarrow> returned (new_ResultAsync caught w3))))"

text \<open>\<open>infer(fn)\<close>: \<open>return fn\<close>.\<close>

definition infer :: "('args, 'r, 'x, 'w) callback \<Rightarrow> ('args, 'r, 'x, 'w) callback" where
  "infer fn = fn"

section \<open>Chains of operator calls\<close>

text \<open>
  A step of a chain, as it can be written with the synchronous result: the operator and
  its transformer. The transformer acts on the program's own state \<open>'u\<close>. For \<open>andThen\<close>
  and \<open>orElse\<close> the step also says in which of the three accepted shapes the asynchronous
  version of the transformer hands its result over.
\<close>

datatype shape = AsResultAsync | AsPromise | AsResult

datatype ('o, 'e, 'x, 'u, 'r) step =
  Map "('o, 'o, 'x, 'u) callback"
| MapErr "('e, 'e, 'x, 'u) callback"
| AndThen shape "('o, ('o, 'e) Result, 'x, 'u) callback"
| OrElse shape "('e, ('o, 'e) Result, 'x, 'u) callback"
| AndTee "('o, 'r, 'x, 'u) callback"
| OrTee "('e, 'r, 'x, 'u) callback"

fun sync_step ::
  "('o, 'e, 'x, 'u, 'r) step \<Rightarrow> ('o, 'e) Result \<Rightarrow> 'u \<Rightarrow> (('o, 'e) Result, 'x) completion \<times> 'u" where
  "sync_step (Map f) res u = sync_map res f u"
| "sync_step (MapErr f) res u = sync_mapErr res f u"
| "sync_step (AndThen sh f) res u = sync_andThen res f u"
| "sync_step (OrElse sh f) res u = sync_orElse res f u"
| "sync_step (AndTee f) res u = sync_andTee res f u"
| "sync_step (OrTee f) res u = sync_orTee res f u"

text \<open>The synchronous chain \<open>res.step1(f1).step2(f2)...\<close>: a fault thrown by a transformer
  ends it.\<close>

fun run_sync ::
  "('o, 'e, 'x, 'u, 'r) step list \<Rightarrow> ('o, 'e) Result \<Rightarrow> 'u \<Rightarrow>
   (('o, 'e) Result, 'x) completion \<times> 'u" where
  "run_sync [] res u = (Returns res, u)"
| "run_sync (s # ss) res u =
     (case sync_step s res u of
        (Returns res', u') \<Rightarrow> run_sync ss res' u'
      | (Throws x, u') \<Rightarrow> (Throws x, u'))"

text \<open>A transformer of the program run inside the world of the asynchronous library.\<close>

definition in_user :: "('a, 'b, 'x, 'u) callback \<Rightarrow> ('a, 'b, 'x, ('o, 'e, 'x, 'u) world) callback" where
  "in_user f a w = (case f a (user w) of (c, u') \<Rightarrow> (c, w\<lparr>user := u'\<rparr>))"

text \<open>The three ways of handing a result to the asynchronous \<open>andThen\<close> and \<open>orElse\<close>:
  \<open>toAsync(r)\<close>, \<open>Promise.resolve(r)\<close> and \<open>r\<close> itself.\<close>

fun lift_result ::
  "shape \<Rightarrow> ('o, 'e) Result \<Rightarrow> ('o, 'e, 'x, 'u) world \<Rightarrow>
   (('o, 'e, 'x) transformed, 'x) completion \<times> ('o, 'e, 'x, 'u) world" where
  "lift_result AsResultAsync r w = instance_returned (toAsync r w)"
| "lift_result AsPromise r w = (Returns (IsPromise (Promise_resolve r)), w)"
| "lift_result AsResult r w = (Returns (IsResult r), w)"

definition lifted ::
  "shape \<Rightarrow> ('a, ('o, 'e) Result, 'x, 'u) callback \<Rightarrow>
   ('a, ('o, 'e, 'x) transformed, 'x, ('o, 'e, 'x, 'u) world) callback" where
  "lifted sh f a w =
     (case in_user f a w of
        (Returns r, w1) \<Rightarrow> lift_result sh r w1
      | (Throws x, w1) \<Rightarrow> (Throws x, w1))"

fun async_step ::
  "('o, 'e, 'x, 'u, 'r) step \<Rightarrow> addr \<Rightarrow> ('o, 'e, 'x, 'u) world \<Rightarrow> addr \<times> ('o, 'e, 'x, 'u) world" where
  "async_step (Map f) self w = map_async self (in_user f) w"
| "async_step (MapErr f) self w = mapErr self (in_user f) w"
| "async_step (AndThen sh f) self w = andThen self (lifted sh f) w"
| "async_step (OrElse sh f) self w = orElse self (lifted sh f) w"
| "async_step (AndTee f) self w = andTee self (in_user f) w"
| "async_step (OrTee f) self w = orTee self (in_user f) w"

text \<open>The same chain through the operators of \<open>ResultAsync\<close>: each operator is called on the
  instance the one before returned.\<close>

fun run_async ::
  "('o, 'e, 'x, 'u, 'r) step list \<Rightarrow> addr \<Rightarrow> ('o, 'e, 'x, 'u) world \<Rightarrow>
   addr \<times> ('o, 'e, 'x, 'u) world" where
  "run_async [] self w = (self, w)"
| "run_async (s # ss) self w = (case async_step s self w of (self', w') \<Rightarrow> run_async ss self' w')"

text \<open>What a promise has settled to, as the completion an \<open>await\<close> of it would give.\<close>

fun settled_as :: "('a, 'x) completion \<Rightarrow> ('a, 'x) promise" where
  "settled_as (Returns a) = Fulfilled a"
| "settled_as (Throws x) = Rejected x"

subsection \<open>Operator calls on arbitrary instances\<close>

text \<open>
  One call of one of the six operators, with the transformer as the library receives it: a
  function that runs in the whole world and may construct instances of its own.
\<close>

datatype ('o, 'e, 'x, 'u, 'r) operator =
  CallMap "('o, 'o, 'x, ('o, 'e, 'x, 'u) world) callback"
| CallMapErr "('e, 'e, 'x, ('o, 'e, 'x, 'u) world) callback"
| CallAndThen "('o, ('o, 'e, 'x) transformed, 'x, ('o, 'e, 'x, 'u) world) callback"
| CallOrElse "('e, ('o, 'e, 'x) transformed, 'x, ('o, 'e, 'x, 'u) world) callback"
| CallAndTee "('o, 'r, 'x, ('o, 'e, 'x, 'u) world) callback"
| CallOrTee "('e, 'r, 'x, ('o, 'e, 'x, 'u) world) callback"

fun call ::
  "('o, 'e, 'x, 'u, 'r) operator \<Rightarrow> addr \<Rightarrow> ('o, 'e, 'x, 'u) world \<Rightarrow> addr \<times> ('o, 'e, 'x, 'u) world" where
  "call (CallMap fn) self w = map_async self fn w"
| "call (CallMapErr fn) self w = mapErr self fn w"
| "call (CallAndThen fn) self w = andThen self fn w"
| "call (CallOrElse fn) self w = orElse self fn w"
| "call (CallAndTee fn) self w = andTee self fn w"
| "call (CallOrTee fn) self w = orTee self fn w"

text \<open>A sequence of calls, each on the receiver it names; the instances they return are
  collected.\<close>

fun calls ::
  "(addr \<times> ('o, 'e, 'x, 'u, 'r) operator) list \<Rightarrow> ('o, 'e, 'x, 'u) world \<Rightarrow>
   addr list \<times> ('o, 'e, 'x, 'u) world" where
  "calls [] w = ([], w)"
| "calls ((self, opr) # rest) w =
     (case call opr self w of
        (a, w1) \<Rightarrow> (case calls rest w1 of (as, w2) \<Rightarrow> (a # as, w2)))"

text \<open>
  Code outside the class cannot reach the private field of an instance and cannot undo
  the settlement of a promise: whatever a caller-supplied function does, the instances
  that exist when it starts are still there, unchanged, when it ends.
\<close>

definition keeps_instances :: "('a, 'b, 'x, ('o, 'e, 'x, 'u) world) callback \<Rightarrow> bool" where
  "keeps_instances fn \<longleftrightarrow> (\<forall>a w. prefix (heap w) (heap (snd (fn a w))))"

fun outside_code :: "('o, 'e, 'x, 'u, 'r) operator \<Rightarrow> bool" where
  "outside_code (CallMap fn) = keeps_instances fn"
| "outside_code (CallMapErr fn) = keeps_instances fn"
| "outside_code (CallAndThen fn) = keeps_instances fn"
| "outside_code (CallOrElse fn) = keeps_instances fn"
| "outside_code (CallAndTee fn) = keeps_instances fn"
| "outside_code (CallOrTee fn) = keeps_instances fn"

section \<open>Basic facts\<close>

lemma promise_of_last:
  "heap w' = h @ [obj] \<Longrightarrow> promise_of w' (length h) = priv_promise obj"
  by (simp add: promise_of_def)

lemma snd_plain [simp]: "snd (plain cw) = snd cw"
  by (cases cw; cases "fst cw") simp_all

lemma snd_returning [simp]: "snd (returning g cw) = snd cw"
  by (cases cw; cases "fst cw") simp_all

lemma snd_unwrap_instance [simp]: "snd (unwrap_instance cw) = snd cw"
  by (cases cw rule: unwrap_instance.cases) simp_all

subsection \<open>Allocation only extends the heap\<close>

lemma promise_of_prefix:
  "prefix (heap w) (heap w') \<Longrightarrow> self < length (heap w) \<Longrightarrow>
   heap w' ! self = heap w ! self \<and> promise_of w' self = promise_of w self"
  by (auto simp: prefix_def promise_of_def nth_append)

lemma new_ResultAsync_fresh:
  "new_ResultAsync p w = (a, w') \<Longrightarrow>
   prefix (heap w) (heap w') \<and> length (heap w) \<le> a \<and> a < length (heap w')"
  by (auto simp: new_ResultAsync_def)

lemma Promise_then1_keeps:
  assumes "\<And>v w. prefix (heap w) (heap (snd (h v w)))"
  shows "prefix (heap w) (heap (snd (Promise_then1 p h w)))"
proof (cases p)
  case (Fulfilled v)
  from assms [of w v] show ?thesis
    by (auto simp: Promise_then1_def Promise_then_def Fulfilled split: prod.splits)
qed (simp_all add: Promise_then1_def Promise_then_def Thrower_def)

text \<open>Every operator has the form \<open>new ResultAsync(this._promise.then(h))\<close>.\<close>

lemma derived_fresh:
  assumes "\<And>v w. prefix (heap w) (heap (snd (h v w)))"
    and "(case Promise_then1 p h w of (q, w1) \<Rightarrow> new_ResultAsync q w1) = (a, w')"
  shows "prefix (heap w) (heap w') \<and> length (heap w) \<le> a \<and> a < length (heap w')"
proof -
  obtain q w1 where t: "Promise_then1 p h w = (q, w1)" by (cases "Promise_then1 p h w")
  with Promise_then1_keeps [of h w p] assms(1) have p1: "prefix (heap w) (heap w1)" by simp
  from assms(2) t have "new_ResultAsync q w1 = (a, w')" by simp
  from new_ResultAsync_fresh [OF this] p1 show ?thesis
    by (auto dest: prefix_length_le intro: prefix_order.trans)
qed

lemma call_fresh:
  assumes "outside_code opr" and "call opr self w = (a, w')"
  shows "prefix (heap w) (heap w') \<and> length (heap w) \<le> a \<and> a < length (heap w')"
proof (cases opr)
  case (CallMap fn)
  with assms show ?thesis
    by (intro derived_fresh [where h = "\<lambda>res w. plain (sync_map res fn w)"
          and p = "promise_of w self"])
       (auto simp: map_async_def keeps_instances_def sync_map_def split: Result.splits)
next
  case (CallMapErr fn)
  with assms show ?thesis
    by (intro derived_fresh [where h = "\<lambda>res w. plain (sync_mapErr res fn w)"
          and p = "promise_of w self"])
       (auto simp: mapErr_def keeps_instances_def sync_mapErr_def split: Result.splits)
next
  case (CallAndThen fn)
  with assms show ?thesis
    by (intro derived_fresh [where h = "\<lambda>res w. sync_match res
                (\<lambda>okv w. unwrap_instance (fn okv w))
                (\<lambda>error w. (Returns (Thenable (Promise_resolve (errSync error))), w)) w"
          and p = "promise_of w self"])
       (auto simp: andThen_def keeps_instances_def sync_match_def split: Result.splits)
next
  case (CallOrElse fn)
  with assms show ?thesis
    by (intro derived_fresh [where h = "\<lambda>res w. sync_match res
                (\<lambda>okv w. (Returns (Thenable (Promise_resolve (okSync okv))), w))
                (\<lambda>error w. unwrap_instance (fn error w)) w"
          and p = "promise_of w self"])
       (auto simp: orElse_def keeps_instances_def sync_match_def split: Result.splits)
next
  case (CallAndTee fn)
  with assms show ?thesis
    by (intro derived_fresh [where h = "\<lambda>res w. plain (sync_andTee res fn w)"
          and p = "promise_of w self"])
       (auto simp: andTee_def keeps_instances_def sync_andTee_def split: Result.splits)
next
  case (CallOrTee fn)
  with assms show ?thesis
    by (intro derived_fresh [where h = "\<lambda>res w. plain (sync_orTee res fn w)"
          and p = "promise_of w self"])
       (auto simp: orTee_def keeps_instances_def sync_orTee_def split: Result.splits)
qed

lemma calls_fresh:
  "\<forall>(target, opr) \<in> set cs. outside_code opr \<Longrightarrow> calls cs w = (results, w') \<Longrightarrow>
   prefix (heap w) (heap w') \<and>
   (\<forall>a \<in> set results. length (heap w) \<le> a \<and> a < length (heap w')) \<and>
   distinct results"
proof (induction cs arbitrary: w results)
  case Nil
  then show ?case by simp
next
  case (Cons c cs)
  obtain target opr where c: "c = (target, opr)" by (cases c)
  obtain a w1 where one: "call opr target w = (a, w1)" by (cases "call opr target w")
  obtain as where rest: "calls cs w1 = (as, w')" and res: "results = a # as"
    using Cons.prems(2) c one by (auto split: prod.splits)
  from Cons.prems(1) c have "outside_code opr" by simp
  from call_fresh [OF this one]
  have f1: "prefix (heap w) (heap w1)" "length (heap w) \<le> a" "a < length (heap w1)"
    by simp_all
  from Cons.prems(1) have "\<forall>(target, opr) \<in> set cs. outside_code opr" by simp
  from Cons.IH [OF this rest]
  have f2: "prefix (heap w1) (heap w')"
    "\<forall>b \<in> set as. length (heap w1) \<le> b \<and> b < length (heap w')" "distinct as"
    by simp_all
  from f1 f2 have "prefix (heap w) (heap w')" by (auto intro: prefix_order.trans)
  moreover from f1 f2 have "\<forall>b \<in> set results. length (heap w) \<le> b \<and> b < length (heap w')"
    using res prefix_length_le [of "heap w" "heap w1"] prefix_length_le [of "heap w1" "heap w'"]
    by auto
  moreover from f1 f2 have "distinct results" using res by auto
  ultimately show ?case by simp
qed

subsection \<open>One step of a chain, synchronous and asynchronous\<close>

lemma async_step_fulfilled:
  assumes "promise_of w a = Fulfilled r"
  shows "(case async_step s a w of (b, w') \<Rightarrow> (promise_of w' b, user w')) =
         (case sync_step s r (user w) of (c, u) \<Rightarrow> (settled_as c, u))"
proof (cases s)
  case (Map f)
  show ?thesis
  proof (cases r)
    case (Ok v)
    obtain c u where fv: "f v (user w) = (c, u)" by (cases "f v (user w)")
    from Map Ok fv assms show ?thesis
      by (cases c)
         (simp_all add: map_async_def sync_map_def Promise_then1_def Promise_then_def
            in_user_def new_ResultAsync_def promise_of_last)
  next
    case (Err e)
    with Map assms show ?thesis
      by (simp add: map_async_def sync_map_def Promise_then1_def Promise_then_def
            in_user_def new_ResultAsync_def promise_of_last)
  qed
next
  case (MapErr f)
  show ?thesis
  proof (cases r)
    case (Err v)
    obtain c u where fv: "f v (user w) = (c, u)" by (cases "f v (user w)")
    from MapErr Err fv assms show ?thesis
      by (cases c)
         (simp_all add: mapErr_def sync_mapErr_def Promise_then1_def Promise_then_def
            in_user_def new_ResultAsync_def promise_of_last)
  next
    case (Ok e)
    with MapErr assms show ?thesis
      by (simp add: mapErr_def sync_mapErr_def Promise_then1_def Promise_then_def
            in_user_def new_ResultAsync_def promise_of_last)
  qed
next
  case (AndThen sh f)
  show ?thesis
  proof (cases r)
    case (Ok v)
    obtain c u where fv: "f v (user w) = (c, u)" by (cases "f v (user w)")
    from AndThen Ok fv assms show ?thesis
      by (cases c; cases sh)
         (simp_all add: andThen_def sync_andThen_def sync_match_def lifted_def toAsync_def
            instance_returned_def Promise_resolve_def errSync_def promise_of_def nth_append Promise_then1_def Promise_then_def
            in_user_def new_ResultAsync_def promise_of_last)
  next
    case (Err e)
    with AndThen assms show ?thesis
      by (simp add: andThen_def sync_andThen_def sync_match_def lifted_def toAsync_def
            instance_returned_def Promise_resolve_def errSync_def promise_of_def nth_append Promise_then1_def Promise_then_def
            in_user_def new_ResultAsync_def promise_of_last)
  qed
next
  case (OrElse sh f)
  show ?thesis
  proof (cases r)
    case (Err v)
    obtain c u where fv: "f v (user w) = (c, u)" by (cases "f v (user w)")
    from OrElse Err fv assms show ?thesis
      by (cases c; cases sh)
         (simp_all add: orElse_def sync_orElse_def sync_match_def lifted_def toAsync_def
            instance_returned_def Promise_resolve_def okSync_def promise_of_def nth_append Promise_then1_def Promise_then_def
            in_user_def new_ResultAsync_def promise_of_last)
  next
    case (Ok e)
    with OrElse assms show ?thesis
      by (simp add: orElse_def sync_orElse_def sync_match_def lifted_def toAsync_def
            instance_returned_def Promise_resolve_def okSync_def promise_of_def nth_append Promise_then1_def Promise_then_def
            in_user_def new_ResultAsync_def promise_of_last)
  qed
next
  case (AndTee f)
  show ?thesis
  proof (cases r)
    case (Ok v)
    obtain c u where fv: "f v (user w) = (c, u)" by (cases "f v (user w)")
    from AndTee Ok fv assms show ?thesis
      by (cases c)
         (simp_all add: andTee_def sync_andTee_def Promise_then1_def Promise_then_def
            in_user_def new_ResultAsync_def promise_of_last)
  next
    case (Err e)
    with AndTee assms show ?thesis
      by (simp add: andTee_def sync_andTee_def Promise_then1_def Promise_then_def
            in_user_def new_ResultAsync_def promise_of_last)
  qed
next
  case (OrTee f)
  show ?thesis
  proof (cases r)
    case (Err v)
    obtain c u where fv: "f v (user w) = (c, u)" by (cases "f v (user w)")
    from OrTee Err fv assms show ?thesis
      by (cases c)
         (simp_all add: orTee_def sync_orTee_def Promise_then1_def Promise_then_def
            in_user_def new_ResultAsync_def promise_of_last)
  next
    case (Ok e)
    with OrTee assms show ?thesis
      by (simp add: orTee_def sync_orTee_def Promise_then1_def Promise_then_def
            in_user_def new_ResultAsync_def promise_of_last)
  qed
qed

lemma async_step_rejected:
  assumes "promise_of w a = Rejected x"
  shows "(case async_step s a w of (b, w') \<Rightarrow> (promise_of w' b, user w')) = (Rejected x, user w)"
  using assms
  by (cases s)
     (simp_all add: map_async_def mapErr_def andThen_def orElse_def andTee_def orTee_def
        Promise_then1_def Promise_then_def Thrower_def new_ResultAsync_def promise_of_last)

lemma run_async_rejected:
  "promise_of w a = Rejected x \<Longrightarrow>
   (case run_async ss a w of (b, w') \<Rightarrow> (promise_of w' b, user w')) = (Rejected x, user w)"
proof (induction ss arbitrary: a w)
  case Nil
  then show ?case by simp
next
  case (Cons s ss)
  obtain b w' where step: "async_step s a w = (b, w')" by (cases "async_step s a w")
  with async_step_rejected [OF Cons.prems, of s]
  have "promise_of w' b = Rejected x" and "user w' = user w" by simp_all
  with Cons.IH [of w' b] step show ?case by simp
qed

lemma run_async_fulfilled:
  "promise_of w a = Fulfilled r \<Longrightarrow>
   (case run_async ss a w of (b, w') \<Rightarrow> (promise_of w' b, user w')) =
   (case run_sync ss r (user w) of (c, u) \<Rightarrow> (settled_as c, u))"
proof (induction ss arbitrary: a w r)
  case Nil
  then show ?case by simp
next
  case (Cons s ss)
  obtain b w' where step: "async_step s a w = (b, w')" by (cases "async_step s a w")
  obtain c u where sync: "sync_step s r (user w) = (c, u)" by (cases "sync_step s r (user w)")
  from async_step_fulfilled [OF Cons.prems, of s] step sync
  have settled: "promise_of w' b = settled_as c" and u: "user w' = u" by simp_all
  show ?case
  proof (cases c)
    case (Returns r')
    with settled have "promise_of w' b = Fulfilled r'" by simp
    from Cons.IH [OF this] step sync u Returns show ?thesis by simp
  next
    case (Throws x)
    with settled have "promise_of w' b = Rejected x" by simp
    from run_async_rejected [OF this, of ss] step sync u Throws show ?thesis by simp
  qed
qed

section \<open>The safe-call adapter\<close>

text \<open>
  C4. For every callable \<open>op\<close> adapted by \<open>safeTry\<close>: if \<open>op\<close> completes normally with
  result \<open>x\<close> (the promise it returns is fulfilled with \<open>x\<close>), the adapted callable returns
  a new \<open>ResultAsync\<close>, at the next address of the heap \<open>op\<close> left, whose promise is
  fulfilled with the Success carrying \<open>x\<close>; if \<open>op\<close> rejects with fault \<open>f\<close> and a
  translate function was supplied, which returns \<open>e\<close> for \<open>f\<close>, the promise is fulfilled
  with the Failure whose payload is exactly \<open>e\<close>; if \<open>op\<close> rejects with \<open>f\<close> and no
  translate function was supplied, the Failure payload is \<open>f\<close> itself. In each case the
  outcome is read back from the instance the call returned.
\<close>

theorem safeTry_outcomes:
  "(try_op safeArgs args w = (Returns (Fulfilled x), w1) \<longrightarrow>
      safeTry safeArgs args w =
        (Returns (length (heap w1)),
         w1\<lparr>heap := heap w1 @ [\<lparr>priv_promise = Fulfilled (Ok x)\<rparr>]\<rparr>) \<and>
      promise_of (snd (safeTry safeArgs args w)) (length (heap w1)) = Fulfilled (Ok x)) \<and>
   (try_op safeArgs args w = (Returns (Rejected f), w1) \<and> catch_op safeArgs = Some translate \<and>
    translate f w1 = (Returns e, w2) \<longrightarrow>
      safeTry safeArgs args w =
        (Returns (length (heap w2)),
         w2\<lparr>heap := heap w2 @ [\<lparr>priv_promise = Fulfilled (Err e)\<rparr>]\<rparr>) \<and>
      promise_of (snd (safeTry safeArgs args w)) (length (heap w2)) = Fulfilled (Err e)) \<and>
   (try_op safeArgs args w = (Returns (Rejected f), w1) \<and> catch_op safeArgs = None \<longrightarrow>
      safeTry safeArgs args w =
        (Returns (length (heap w1)),
         w1\<lparr>heap := heap w1 @ [\<lparr>priv_promise = Fulfilled (Err f)\<rparr>]\<rparr>) \<and>
      promise_of (snd (safeTry safeArgs args w)) (length (heap w1)) = Fulfilled (Err f))"
  by (simp add: safeTry_def Promise_then1_def Promise_catch_def Promise_then_def Identity_def
      Thrower_def okSync_def errSync_def returned_def new_ResultAsync_def promise_of_last)

text \<open>The three cases on the callables of the test suite, each called in a world with no
  instance yet: \<open>(arg1) => Promise.resolve(arg1 + 5)\<close> called with 10, a rejecting
  callable with the translator \<open>() => new Error(message)\<close>, and a rejecting callable
  without translator. Each call returns the instance at address 0, and the heap then
  holds exactly that instance with the outcome in its promise.\<close>

theorem safeTry_outcomes_witness:
  "safeTry \<lparr>try_op = (\<lambda>arg1 w. (Returns (Fulfilled (arg1 + 5)), w)), catch_op = None\<rparr>
     (10::int) \<lparr>heap = [], user = ()\<rparr>
     = (Returns 0,
        \<lparr>heap = [\<lparr>priv_promise = (Fulfilled (Ok 15) :: ((int, string) Result, string) promise)\<rparr>],
         user = ()\<rparr>) \<and>
   promise_of
     (snd (safeTry \<lparr>try_op = (\<lambda>arg1 w. (Returns (Fulfilled (arg1 + 5)), w)), catch_op = None\<rparr>
        (10::int) \<lparr>heap = ([]::(int, string, string) ResultAsync list), user = ()\<rparr>)) 0
     = Fulfilled (Ok 15) \<and>
   safeTry \<lparr>try_op = (\<lambda>u w. (Returns (Rejected ''Original error''), w)),
            catch_op = Some (\<lambda>error w. (Returns ''Custom error message'', w))\<rparr>
     () \<lparr>heap = [], user = ()\<rparr>
     = (Returns 0,
        \<lparr>heap = [\<lparr>priv_promise = (Fulfilled (Err ''Custom error message'')
                    :: ((int, string) Result, string) promise)\<rparr>],
         user = ()\<rparr>) \<and>
   safeTry \<lparr>try_op = (\<lambda>u w. (Returns (Rejected ''Something went wrong''), w)), catch_op = None\<rparr>
     () \<lparr>heap = [], user = ()\<rparr>
     = (Returns 0,
        \<lparr>heap = [\<lparr>priv_promise = (Fulfilled (Err ''Something went wrong'')
                    :: ((int, string) Result, string) promise)\<rparr>],
         user = ()\<rparr>)"
proof -
  let ?w = "\<lparr>heap = ([]::(int, string, string) ResultAsync list), user = ()\<rparr>"
  let ?translate = "(\<lambda>error w. (Returns ''Custom error message'', w))
      :: (string, string, string, (int, string, string, unit) world) callback"
  let ?adds = "\<lparr>try_op = (\<lambda>arg1 w. (Returns (Fulfilled (arg1 + 5)), w)), catch_op = None\<rparr>
      :: (int, int, string, unit) safeArgs"
  let ?translated = "\<lparr>try_op = (\<lambda>u w. (Returns (Rejected ''Original error''), w)),
      catch_op = Some ?translate\<rparr> :: (unit, int, string, unit) safeArgs"
  let ?verbatim = "\<lparr>try_op = (\<lambda>u w. (Returns (Rejected ''Something went wrong''), w)),
      catch_op = None\<rparr> :: (unit, int, string, unit) safeArgs"
  have "try_op ?adds 10 ?w = (Returns (Fulfilled 15), ?w)"
    by simp
  then have fulfilled:
    "safeTry ?adds 10 ?w =
       (Returns (length (heap ?w)), ?w\<lparr>heap := heap ?w @ [\<lparr>priv_promise = Fulfilled (Ok 15)\<rparr>]\<rparr>)"
    "promise_of (snd (safeTry ?adds 10 ?w)) (length (heap ?w)) = Fulfilled (Ok 15)"
    using safeTry_outcomes [where safeArgs = ?adds and args = 10 and w = ?w and x = 15
        and ?w1.0 = ?w and f = "''none''" and translate = ?translate and e = "''none''"
        and ?w2.0 = ?w]
    by blast+
  have "try_op ?translated () ?w = (Returns (Rejected ''Original error''), ?w) \<and>
        catch_op ?translated = Some ?translate \<and>
        ?translate ''Original error'' ?w = (Returns ''Custom error message'', ?w)"
    by simp
  then have translated:
    "safeTry ?translated () ?w =
       (Returns (length (heap ?w)),
        ?w\<lparr>heap := heap ?w @ [\<lparr>priv_promise = Fulfilled (Err ''Custom error message'')\<rparr>]\<rparr>)"
    using safeTry_outcomes [where safeArgs = ?translated and args = "()" and w = ?w and x = 0
        and ?w1.0 = ?w and f = "''Original error''" and translate = ?translate
        and e = "''Custom error message''" and ?w2.0 = ?w]
    by blast
  have "try_op ?verbatim () ?w = (Returns (Rejected ''Something went wrong''), ?w) \<and>
        catch_op ?verbatim = None"
    by simp
  then have verbatim:
    "safeTry ?verbatim () ?w =
       (Returns (length (heap ?w)),
        ?w\<lparr>heap := heap ?w @ [\<lparr>priv_promise = Fulfilled (Err ''Something went wrong'')\<rparr>]\<rparr>)"
    using safeTry_outcomes [where safeArgs = ?verbatim and args = "()" and w = ?w and x = 0
        and ?w1.0 = ?w and f = "''Something went wrong''" and translate = ?translate
        and e = "''none''" and ?w2.0 = ?w]
    by blast
  from fulfilled translated verbatim show ?thesis
    by simp
qed

text \<open>
  C1. The safe-call adapter should never re-raise: a fault raised during the synchronous
  portion of invoking \<open>op\<close> should become a Failure like the rejection of the promise \<open>op\<close>
  returns. The code does not do so. The playground of the package adapts
  \<open>divideNumbers\<close>, which throws before it returns a promise when the divisor is 0; the
  adapted callable, called with \<open>(10, 0)\<close>, throws that same fault, constructs no
  \<open>ResultAsync\<close> and never calls the translator.
\<close>

theorem safeTry_rethrows_synchronous_fault:
  "safeTry \<lparr>try_op = (\<lambda>(a, b) w. if b = (0::int) then (Throws ''Division by zero'', w)
                                 else (Returns (Fulfilled (a div b)), w)),
            catch_op = Some (\<lambda>error w. (Returns (''Division error: '' @ error), w))\<rparr>
     (10, 0) \<lparr>heap = [], user = ()\<rparr>
   = (Throws ''Division by zero'', \<lparr>heap = [], user = ()\<rparr>)"
  by (simp add: safeTry_def)

section \<open>Chaining\<close>

text \<open>
  C2. For every success value \<open>v\<close> and every transformer \<open>fn\<close> passed to \<open>andThen\<close>: if the
  receiver resolves to Success \<open>v\<close>, then \<open>fn(v)\<close> is invoked (the world continues from
  the one \<open>fn\<close> left) and the new instance wraps exactly the deferred computation that
  \<open>fn(v)\<close> produced, for each of the three shapes: the promise inside a returned
  \<open>ResultAsync\<close>, a returned promise, or a returned plain result. After \<open>andThen(() =>
  err(e'))\<close> on a success the chain resolves to the Failure carrying exactly \<open>e'\<close>, and
  chained calls compose: 10 becomes 20 and then 25.
\<close>

theorem andThen_success:
  "(promise_of w self = Fulfilled (Ok v) \<and> fn v w = (Returns (IsResultAsync a), w1) \<longrightarrow>
      andThen self fn w = new_ResultAsync (promise_of w1 a) w1) \<and>
   (promise_of w self = Fulfilled (Ok v) \<and> fn v w = (Returns (IsPromise p), w1) \<longrightarrow>
      andThen self fn w = new_ResultAsync p w1) \<and>
   (promise_of w self = Fulfilled (Ok v) \<and> fn v w = (Returns (IsResult r), w1) \<longrightarrow>
      andThen self fn w = new_ResultAsync (Fulfilled r) w1) \<and>
   (case ok v w of (a, w1) \<Rightarrow>
      (case andThen a (\<lambda>t w. instance_returned (err e' w)) w1 of (b, w2) \<Rightarrow> promise_of w2 b)) =
      Fulfilled (Err e') \<and>
   (case ok (10::int) wi of (a, w1) \<Rightarrow>
      (case andThen a (\<lambda>val w. instance_returned (ok (val * 2) w)) w1 of (b, w2) \<Rightarrow>
         (case andThen b (\<lambda>val w. instance_returned (ok (val + 5) w)) w2 of (c, w3) \<Rightarrow>
            (promise_of w3 b, promise_of w3 c)))) =
      (Fulfilled (Ok 20), Fulfilled (Ok 25))"
  by (simp add: andThen_def Promise_then1_def Promise_then_def sync_match_def ok_def err_def
      new_ResultAsync_def instance_returned_def Promise_resolve_def okSync_def errSync_def
      promise_of_def nth_append)

text \<open>The three shapes on a receiver that resolved to Success 10, with a transformer that
  doubles: \<open>(val) => ok(val * 2)\<close>, an \<open>async\<close> function returning \<open>okSync(val * 2)\<close>, and
  a function returning \<open>okSync(val * 2)\<close> directly.\<close>

theorem andThen_success_witness:
  "andThen 0 (\<lambda>val w. instance_returned (ok (val * 2) w))
     \<lparr>heap = [\<lparr>priv_promise = Fulfilled (Ok (10::int))\<rparr>], user = ()\<rparr>
   = (2, \<lparr>heap = [\<lparr>priv_promise = Fulfilled (Ok 10)\<rparr>, \<lparr>priv_promise = Fulfilled (Ok 20)\<rparr>,
                 \<lparr>priv_promise = (Fulfilled (Ok 20) :: ((int, string) Result, string) promise)\<rparr>],
         user = ()\<rparr>) \<and>
   andThen 0 (\<lambda>val w. (Returns (IsPromise (Fulfilled (Ok (val * 2)))), w))
     \<lparr>heap = [\<lparr>priv_promise = Fulfilled (Ok (10::int))\<rparr>], user = ()\<rparr>
   = (1, \<lparr>heap = [\<lparr>priv_promise = Fulfilled (Ok 10)\<rparr>,
                 \<lparr>priv_promise = (Fulfilled (Ok 20) :: ((int, string) Result, string) promise)\<rparr>],
         user = ()\<rparr>) \<and>
   andThen 0 (\<lambda>val w. (Returns (IsResult (Ok (val * 2))), w))
     \<lparr>heap = [\<lparr>priv_promise = Fulfilled (Ok (10::int))\<rparr>], user = ()\<rparr>
   = (1, \<lparr>heap = [\<lparr>priv_promise = Fulfilled (Ok 10)\<rparr>,
                 \<lparr>priv_promise = (Fulfilled (Ok 20) :: ((int, string) Result, string) promise)\<rparr>],
         user = ()\<rparr>)"
proof -
  let ?w = "\<lparr>heap = [\<lparr>priv_promise =
      (Fulfilled (Ok (10::int)) :: ((int, string) Result, string) promise)\<rparr>], user = ()\<rparr>"
  let ?w1 = "\<lparr>heap = [\<lparr>priv_promise =
      (Fulfilled (Ok (10::int)) :: ((int, string) Result, string) promise)\<rparr>,
      \<lparr>priv_promise = Fulfilled (Ok 20)\<rparr>], user = ()\<rparr>"
  have receiver: "promise_of ?w 0 = Fulfilled (Ok 10)"
    by (simp add: promise_of_def)
  have "((\<lambda>val w. instance_returned (ok (val * 2) w)) ::
          (int, (int, string, string) transformed, string, (int, string, string, unit) world)
            callback) 10 ?w =
        (Returns (IsResultAsync 1), ?w1)"
    by (simp add: instance_returned_def ok_def new_ResultAsync_def Promise_resolve_def okSync_def)
  with receiver
  have "andThen 0 (\<lambda>val w. instance_returned (ok (val * 2) w)) ?w =
        new_ResultAsync (promise_of ?w1 1) ?w1"
    using andThen_success [where w = ?w and self = 0 and v = 10 and a = 1 and ?w1.0 = ?w1
        and fn = "\<lambda>val w. instance_returned (ok (val * 2) w)"]
    by blast
  moreover
  have "((\<lambda>val w. (Returns (IsPromise (Fulfilled (Ok (val * 2)))), w)) ::
          (int, (int, string, string) transformed, string, (int, string, string, unit) world)
            callback) 10 ?w =
        (Returns (IsPromise (Fulfilled (Ok 20))), ?w)"
    by simp
  with receiver
  have "andThen 0 (\<lambda>val w. (Returns (IsPromise (Fulfilled (Ok (val * 2)))), w)) ?w =
        new_ResultAsync (Fulfilled (Ok 20)) ?w"
    using andThen_success [where w = ?w and self = 0 and v = 10 and p = "Fulfilled (Ok 20)"
        and ?w1.0 = ?w and fn = "\<lambda>val w. (Returns (IsPromise (Fulfilled (Ok (val * 2)))), w)"]
    by blast
  moreover
  have "((\<lambda>val w. (Returns (IsResult (Ok (val * 2))), w)) ::
          (int, (int, string, string) transformed, string, (int, string, string, unit) world)
            callback) 10 ?w =
        (Returns (IsResult (Ok 20)), ?w)"
    by simp
  with receiver
  have "andThen 0 (\<lambda>val w. (Returns (IsResult (Ok (val * 2))), w)) ?w =
        new_ResultAsync (Fulfilled (Ok 20)) ?w"
    using andThen_success [where w = ?w and self = 0 and v = 10 and r = "Ok 20"
        and ?w1.0 = ?w and fn = "\<lambda>val w. (Returns (IsResult (Ok (val * 2))), w)"]
    by blast
  ultimately show ?thesis
    by (simp add: new_ResultAsync_def promise_of_def)
qed

text \<open>
  C3. Short-circuiting is decided by the receiver's variant alone. When the receiver
  resolves to Failure \<open>e\<close>, \<open>andThen(f)\<close> yields a new instance resolving to the Failure
  carrying the same \<open>e\<close>, and the outcome does not depend on \<open>f\<close> in any way: neither the
  instance nor the world shows any effect of \<open>f\<close>, so \<open>f\<close> was not invoked. Dually for
  \<open>orElse(g)\<close> on a receiver resolving to Success \<open>v\<close>. In particular this holds for
  \<open>err(e).andThen(f)\<close> and \<open>ok(v).orElse(g)\<close>.
\<close>

theorem short_circuit:
  "(promise_of w self = Fulfilled (Err e) \<longrightarrow>
      andThen self f w = new_ResultAsync (Fulfilled (Err e)) w) \<and>
   (promise_of w self = Fulfilled (Ok v) \<longrightarrow>
      orElse self g w = new_ResultAsync (Fulfilled (Ok v)) w) \<and>
   (case err e w of (a, w1) \<Rightarrow> andThen a f w1) =
      (case err e w of (a, w1) \<Rightarrow> new_ResultAsync (Fulfilled (Err e)) w1) \<and>
   (case ok v w of (a, w1) \<Rightarrow> orElse a g w1) =
      (case ok v w of (a, w1) \<Rightarrow> new_ResultAsync (Fulfilled (Ok v)) w1)"
  by (simp add: andThen_def orElse_def err_def ok_def new_ResultAsync_def Promise_then1_def
      Promise_then_def sync_match_def Promise_resolve_def errSync_def okSync_def promise_of_last)

text \<open>The tests with a mock function: the flag \<open>user\<close> records whether the mock was
  called, and it is still \<open>False\<close> afterwards.\<close>

theorem short_circuit_witness:
  "andThen 0 (\<lambda>t w. (Returns (IsResult (Ok t)), w\<lparr>user := True\<rparr>))
     \<lparr>heap = [\<lparr>priv_promise = Fulfilled (Err ''original error'')\<rparr>], user = False\<rparr>
   = (1, \<lparr>heap = [\<lparr>priv_promise = Fulfilled (Err ''original error'')\<rparr>,
                 \<lparr>priv_promise = (Fulfilled (Err ''original error'')
                    :: ((string, string) Result, string) promise)\<rparr>],
         user = False\<rparr>) \<and>
   orElse 0 (\<lambda>t w. (Returns (IsResult (Err t)), w\<lparr>user := True\<rparr>))
     \<lparr>heap = [\<lparr>priv_promise = Fulfilled (Ok ''success'')\<rparr>], user = False\<rparr>
   = (1, \<lparr>heap = [\<lparr>priv_promise = Fulfilled (Ok ''success'')\<rparr>,
                 \<lparr>priv_promise = (Fulfilled (Ok ''success'')
                    :: ((string, string) Result, string) promise)\<rparr>],
         user = False\<rparr>)"
  using
    short_circuit [where w = "\<lparr>heap = [\<lparr>priv_promise = (Fulfilled (Err ''original error'')
          :: ((string, string) Result, string) promise)\<rparr>], user = False\<rparr>"
      and self = 0 and e = "''original error''"
      and f = "\<lambda>t w. (Returns (IsResult (Ok t)), w\<lparr>user := True\<rparr>)"]
    short_circuit [where w = "\<lparr>heap = [\<lparr>priv_promise = (Fulfilled (Ok ''success'')
          :: ((string, string) Result, string) promise)\<rparr>], user = False\<rparr>"
      and self = 0 and v = "''success''"
      and g = "\<lambda>t w. (Returns (IsResult (Err t)), w\<lparr>user := True\<rparr>)"]
  by (simp add: promise_of_def new_ResultAsync_def)

text \<open>
  C6. Transformer faults are never swallowed. When the transformer raises a fault \<open>x\<close> on
  being invoked, and the receiver's variant makes it run (Success for \<open>map\<close> and
  \<open>andThen\<close>, Failure for \<open>orElse\<close>), the promise of the derived instance is rejected with
  exactly \<open>x\<close>; it is not fulfilled with a Failure.
\<close>

theorem transformer_fault_propagates:
  "(promise_of w self = Fulfilled (Ok v) \<and> fn v w = (Throws x, w1) \<longrightarrow>
      map_async self fn w = new_ResultAsync (Rejected x) w1) \<and>
   (promise_of w self = Fulfilled (Ok v) \<and> tf v w = (Throws x, w1) \<longrightarrow>
      andThen self tf w = new_ResultAsync (Rejected x) w1) \<and>
   (promise_of w self = Fulfilled (Err e) \<and> tg e w = (Throws x, w1) \<longrightarrow>
      orElse self tg w = new_ResultAsync (Rejected x) w1)"
  by (simp add: andThen_def orElse_def map_async_def Promise_then1_def Promise_then_def
      sync_match_def sync_map_def)

theorem transformer_fault_propagates_witness:
  "map_async 0 (\<lambda>t w. (Throws ''boom'', w))
     \<lparr>heap = [\<lparr>priv_promise = Fulfilled (Ok (10::int))\<rparr>], user = ()\<rparr>
   = (1, \<lparr>heap = [\<lparr>priv_promise = Fulfilled (Ok 10)\<rparr>,
                 \<lparr>priv_promise = (Rejected ''boom'' :: ((int, string) Result, string) promise)\<rparr>],
         user = ()\<rparr>) \<and>
   andThen 0 (\<lambda>t w. (Throws ''boom'', w))
     \<lparr>heap = [\<lparr>priv_promise = Fulfilled (Ok (10::int))\<rparr>], user = ()\<rparr>
   = (1, \<lparr>heap = [\<lparr>priv_promise = Fulfilled (Ok 10)\<rparr>,
                 \<lparr>priv_promise = (Rejected ''boom'' :: ((int, string) Result, string) promise)\<rparr>],
         user = ()\<rparr>) \<and>
   orElse 0 (\<lambda>t w. (Throws ''boom'', w))
     \<lparr>heap = [\<lparr>priv_promise = Fulfilled (Err ''error'')\<rparr>], user = ()\<rparr>
   = (1, \<lparr>heap = [\<lparr>priv_promise = Fulfilled (Err ''error'')\<rparr>,
                 \<lparr>priv_promise = (Rejected ''boom'' :: ((int, string) Result, string) promise)\<rparr>],
         user = ()\<rparr>)"
  using
    transformer_fault_propagates [where w = "\<lparr>heap = [\<lparr>priv_promise =
          (Fulfilled (Ok (10::int)) :: ((int, string) Result, string) promise)\<rparr>], user = ()\<rparr>"
      and self = 0 and v = 10 and x = "''boom''"
      and fn = "\<lambda>t w. (Throws ''boom'', w)" and tf = "\<lambda>t w. (Throws ''boom'', w)"
      and ?w1.0 = "\<lparr>heap = [\<lparr>priv_promise = Fulfilled (Ok 10)\<rparr>], user = ()\<rparr>"]
    transformer_fault_propagates [where w = "\<lparr>heap = [\<lparr>priv_promise =
          (Fulfilled (Err ''error'') :: ((int, string) Result, string) promise)\<rparr>], user = ()\<rparr>"
      and self = 0 and e = "''error''" and x = "''boom''"
      and tg = "\<lambda>t w. (Throws ''boom'', w)"
      and ?w1.0 = "\<lparr>heap = [\<lparr>priv_promise = Fulfilled (Err ''error'')\<rparr>], user = ()\<rparr>"]
  by (simp add: promise_of_def new_ResultAsync_def)

section \<open>Consuming an instance\<close>

text \<open>
  C10. An instance is directly awaitable, and what it settles to is the underlying
  result, not the success payload: \<open>a.then(okFn, errFn)\<close> is the \<open>then\<close> of the wrapped
  promise. For an instance built by \<open>ok(v)\<close> or \<open>err(e)\<close> it is \<open>okFn\<close> that runs, with
  \<open>Ok v\<close> or \<open>Err e\<close>, whatever \<open>errFn\<close> is; with no handlers, as \<open>await\<close> subscribes,
  the promise is fulfilled with \<open>Ok v\<close> or \<open>Err e\<close> and never rejected.
\<close>

theorem then_async_awaitable:
  "then_async self okFn errFn w = Promise_then (promise_of w self) okFn errFn w \<and>
   (case ok v w of (a, w1) \<Rightarrow> then_async a okFn errFn w1) =
      (case okFn (Ok v) (snd (ok v w)) of (c, w') \<Rightarrow> (resolve_with c, w')) \<and>
   (case err e w of (a, w1) \<Rightarrow> then_async a okFn errFn w1) =
      (case okFn (Err e) (snd (err e w)) of (c, w') \<Rightarrow> (resolve_with c, w')) \<and>
   (case ok v w of (a, w1) \<Rightarrow> then_async a Identity Thrower w1) =
      (Fulfilled (Ok v), snd (ok v w)) \<and>
   (case err e w of (a, w1) \<Rightarrow> then_async a Identity Thrower w1) =
      (Fulfilled (Err e), snd (err e w))"
  by (simp add: then_async_def err_def ok_def new_ResultAsync_def Identity_def
      Promise_then_def Promise_resolve_def errSync_def okSync_def promise_of_last)

text \<open>
  C5. \<open>unwrap\<close> on the asynchronous wrapper. As the claim is stated, \<open>ok(v).unwrap()\<close>
  resolves to \<open>v\<close> for every success payload \<open>v\<close>. That fails when \<open>v\<close> is a thenable:
  the handler \<open>(res) => res.unwrap()\<close> returns \<open>v\<close>, and the promise \<open>then\<close> derives
  adopts it. \<open>ok(Promise.reject('boom')).unwrap()\<close> is rejected with \<open>'boom'\<close>; it is not
  fulfilled with the payload.
\<close>

theorem unwrap_adopts_thenable_payload:
  "(case ok (Thenable (Rejected ''boom'')) \<lparr>heap = [], user = ()\<rparr> of
      (a, w1) \<Rightarrow> fst (unwrap thenable_value a w1))
     = (Rejected ''boom'' :: ((int, string) resolution, string) promise) \<and>
   (case ok (Thenable (Rejected ''boom'')) \<lparr>heap = [], user = ()\<rparr> of
      (a, w1) \<Rightarrow> fst (unwrap thenable_value a w1))
     \<noteq> (Fulfilled (Thenable (Rejected ''boom'')) :: ((int, string) resolution, string) promise)"
  by (simp add: unwrap_def ok_def new_ResultAsync_def Promise_then1_def async_return_def
      Promise_then_def sync_unwrap_def Promise_resolve_def okSync_def promise_of_def
      thenable_value_def)

text \<open>
  C5, as amended. When the instance resolves to Success \<open>v\<close> and \<open>v\<close> is not a thenable,
  the promise \<open>unwrap\<close> returns is fulfilled with \<open>v\<close>; when \<open>v\<close> is a thenable, the
  returned promise is the one \<open>v\<close> is. When the instance resolves to Failure \<open>e\<close> the call
  still returns a promise, and that promise is rejected with the fault of the terminal
  unwrap, which is \<open>e\<close>, whatever \<open>e\<close> is. In particular for \<open>ok(v).unwrap()\<close> and
  \<open>err(e).unwrap()\<close>. The synchronous \<open>unwrap\<close> on the same Failure does not return: it
  throws \<open>e\<close>.
\<close>

theorem unwrap_async:
  "(promise_of w self = Fulfilled (Ok v) \<and> thenable v = None \<longrightarrow>
      unwrap thenable self w = (Fulfilled v, w)) \<and>
   (promise_of w self = Fulfilled (Ok v) \<and> thenable v = Some p \<longrightarrow>
      unwrap thenable self w = (p, w)) \<and>
   (promise_of w self = Fulfilled (Err e) \<longrightarrow> unwrap thenable self w = (Rejected e, w)) \<and>
   (thenable v = None \<longrightarrow>
      (case ok v w of (a, w1) \<Rightarrow> unwrap thenable a w1) = (Fulfilled v, snd (ok v w))) \<and>
   (case err e w of (a, w1) \<Rightarrow> unwrap thenable a w1) = (Rejected e, snd (err e w)) \<and>
   sync_unwrap (Ok v) = Returns v \<and> sync_unwrap (Err e) = Throws e"
  by (simp add: unwrap_def err_def ok_def new_ResultAsync_def Promise_then1_def async_return_def
      Promise_then_def sync_unwrap_def Promise_resolve_def errSync_def okSync_def promise_of_last)

text \<open>On payloads that are a value or a promise: a receiver resolved to the Success
  carrying the value 20, one carrying the promise \<open>Promise.resolve(20)\<close>, and one resolved
  to the Failure \<open>'new error'\<close>.\<close>

theorem unwrap_async_witness:
  "unwrap thenable_value 0
     \<lparr>heap = [\<lparr>priv_promise = Fulfilled (Ok (Value (20::int)))\<rparr>], user = ()\<rparr>
   = (Fulfilled (Value 20),
      \<lparr>heap = [\<lparr>priv_promise = (Fulfilled (Ok (Value 20))
                  :: (((int, string) resolution, string) Result, string) promise)\<rparr>],
       user = ()\<rparr>) \<and>
   unwrap thenable_value 0
     \<lparr>heap = [\<lparr>priv_promise = Fulfilled (Ok (Thenable (Fulfilled (20::int))))\<rparr>], user = ()\<rparr>
   = (Fulfilled (Value 20),
      \<lparr>heap = [\<lparr>priv_promise = (Fulfilled (Ok (Thenable (Fulfilled 20)))
                  :: (((int, string) resolution, string) Result, string) promise)\<rparr>],
       user = ()\<rparr>) \<and>
   unwrap thenable_value 0
     \<lparr>heap = [\<lparr>priv_promise = Fulfilled (Err ''new error'')\<rparr>], user = ()\<rparr>
   = (Rejected ''new error'',
      \<lparr>heap = [\<lparr>priv_promise = (Fulfilled (Err ''new error'')
                  :: (((int, string) resolution, string) Result, string) promise)\<rparr>],
       user = ()\<rparr>)"
proof -
  let ?plain = "\<lparr>heap = [\<lparr>priv_promise = (Fulfilled (Ok (Value (20::int)))
      :: (((int, string) resolution, string) Result, string) promise)\<rparr>], user = ()\<rparr>"
  let ?promised = "\<lparr>heap = [\<lparr>priv_promise = (Fulfilled (Ok (Thenable (Fulfilled (20::int))))
      :: (((int, string) resolution, string) Result, string) promise)\<rparr>], user = ()\<rparr>"
  let ?failed = "\<lparr>heap = [\<lparr>priv_promise = (Fulfilled (Err ''new error'')
      :: (((int, string) resolution, string) Result, string) promise)\<rparr>], user = ()\<rparr>"
  have "promise_of ?plain 0 = Fulfilled (Ok (Value 20)) \<and>
        thenable_value (Value (20::int) :: (int, string) resolution) = None"
    by (simp add: promise_of_def thenable_value_def)
  then have 1: "unwrap thenable_value 0 ?plain = (Fulfilled (Value 20), ?plain)"
    using unwrap_async [where thenable = thenable_value and w = ?plain and self = 0
        and v = "Value 20" and p = Pending and e = "''none''"]
    by blast
  have "promise_of ?promised 0 = Fulfilled (Ok (Thenable (Fulfilled 20))) \<and>
        thenable_value (Thenable (Fulfilled (20::int)) :: (int, string) resolution) =
          Some (Fulfilled (Value 20))"
    by (simp add: promise_of_def thenable_value_def)
  then have 2: "unwrap thenable_value 0 ?promised = (Fulfilled (Value 20), ?promised)"
    using unwrap_async [where thenable = thenable_value and w = ?promised and self = 0
        and v = "Thenable (Fulfilled 20)" and p = "Fulfilled (Value 20)" and e = "''none''"]
    by blast
  have "promise_of ?failed 0 = Fulfilled (Err ''new error'')"
    by (simp add: promise_of_def)
  then have 3: "unwrap thenable_value 0 ?failed = (Rejected ''new error'', ?failed)"
    using unwrap_async [where thenable = thenable_value and w = ?failed and self = 0
        and v = "Value 20" and p = Pending and e = "''new error''"]
    by blast
  from 1 2 3 show ?thesis
    by simp
qed

section \<open>Synchronous and asynchronous chains agree\<close>

text \<open>
  C7. Lifting is faithful. For every result \<open>res\<close>, \<open>toAsync(res)\<close> resolves to \<open>res\<close>
  itself. For every chain of steps that can be written with the synchronous result,
  starting from \<open>res\<close>: performing every step through the operators of \<open>ResultAsync\<close> on
  \<open>toAsync(res)\<close> ends in an instance whose promise has settled to what the synchronous
  chain gives (fulfilled with an equal result, or rejected with the fault a transformer
  threw), and the transformers have had the same effects. For example
  \<open>toAsync(okSync(10)).andThen(x => ok(x * 2)).unwrap()\<close> resolves to 20 (the payloads
  are numbers, none of which is a thenable).
\<close>

theorem async_equivalence:
  "(case toAsync res w of (a, w1) \<Rightarrow> then_async a Identity Thrower w1) =
      (Fulfilled res, snd (toAsync res w)) \<and>
   (case toAsync res w of (a, w1) \<Rightarrow>
      (case run_async ss a w1 of (b, w2) \<Rightarrow> (promise_of w2 b, user w2))) =
      (case run_sync ss res (user w) of (c, u) \<Rightarrow> (settled_as c, u)) \<and>
   (case toAsync (Ok (10::int)) wi of (a, w1) \<Rightarrow>
      (case andThen a (\<lambda>x w. instance_returned (ok (x * 2) w)) w1 of (b, w2) \<Rightarrow>
         fst (unwrap (\<lambda>v. None) b w2))) = Fulfilled 20"
proof -
  obtain a w1 where lift: "toAsync res w = (a, w1)" by (cases "toAsync res w")
  then have p: "promise_of w1 a = Fulfilled res" and u: "user w1 = user w"
    by (auto simp: toAsync_def new_ResultAsync_def Promise_resolve_def promise_of_last)
  from p have "then_async a Identity Thrower w1 = (Fulfilled res, w1)"
    by (simp add: then_async_def Promise_then_def Identity_def)
  moreover
  have "(case toAsync (Ok (10::int)) wi of (a, w1) \<Rightarrow>
      (case andThen a (\<lambda>x w. instance_returned (ok (x * 2) w)) w1 of (b, w2) \<Rightarrow>
         fst (unwrap (\<lambda>v. None) b w2))) = Fulfilled 20"
    by (simp add: toAsync_def andThen_def unwrap_def ok_def instance_returned_def
        new_ResultAsync_def Promise_then1_def Promise_then_def async_return_def sync_match_def
        sync_unwrap_def Promise_resolve_def okSync_def promise_of_def nth_append)
  ultimately show ?thesis
    using run_async_fulfilled [OF p, of ss] lift u by simp
qed

section \<open>Immutability\<close>

text \<open>
  C8. Every operator among \<open>map\<close>, \<open>mapErr\<close>, \<open>andThen\<close>, \<open>orElse\<close>, \<open>andTee\<close> and \<open>orTee\<close>
  returns a new, distinct instance and never changes the receiver. After any number of
  operator calls, on the receiver or on any other instance, with transformers that are
  code outside the class: the receiver is the same object with the same promise; every
  instance returned is new (it did not exist before the calls, so it is not the
  receiver) and the instances returned are distinct from each other; and consuming the
  receiver through \<open>then\<close>, \<open>match\<close>, \<open>unwrap\<close>, \<open>unwrapOr\<close>, \<open>isOk\<close> or \<open>isErr\<close> works on
  the same underlying promise as before the calls.
\<close>

theorem operators_never_mutate_receiver:
  assumes "\<forall>(target, opr) \<in> set cs. outside_code opr"
    and "self < length (heap w)"
    and "calls cs w = (results, w')"
  shows "heap w' ! self = heap w ! self \<and>
         promise_of w' self = promise_of w self \<and>
         (\<forall>a \<in> set results. a \<noteq> self \<and> length (heap w) \<le> a \<and> a < length (heap w')) \<and>
         distinct results \<and>
         then_async self okFn errFn w' = Promise_then (promise_of w self) okFn errFn w' \<and>
         match self args_ok args_err w' =
           async_return (Promise_then1 (promise_of w self)
                           (\<lambda>res w. sync_match res args_ok args_err w) w') \<and>
         unwrap thenable self w' = (fst (unwrap thenable self w), w') \<and>
         unwrapOr thenable self val w' = (fst (unwrapOr thenable self val w), w') \<and>
         isOk self w' = (fst (isOk self w), w') \<and>
         isErr self w' = (fst (isErr self w), w')"
proof -
  from calls_fresh [OF assms(1) assms(3)]
  have pre: "prefix (heap w) (heap w')"
    and fresh: "\<forall>a \<in> set results. length (heap w) \<le> a \<and> a < length (heap w')"
    and dist: "distinct results" by simp_all
  from promise_of_prefix [OF pre assms(2)]
  have same: "heap w' ! self = heap w ! self" "promise_of w' self = promise_of w self"
    by simp_all
  from fresh assms(2)
  have new: "\<forall>a \<in> set results. a \<noteq> self \<and> length (heap w) \<le> a \<and> a < length (heap w')"
    by auto
  have "unwrap thenable self w' = (fst (unwrap thenable self w), w')"
    using same(2)
    by (cases "promise_of w self")
       (auto simp: unwrap_def async_return_def Promise_then1_def Promise_then_def Thrower_def
          sync_unwrap_def split: Result.splits option.splits)
  moreover have "unwrapOr thenable self val w' = (fst (unwrapOr thenable self val w), w')"
    using same(2)
    by (cases "promise_of w self")
       (auto simp: unwrapOr_def async_return_def Promise_then1_def Promise_then_def Thrower_def
          split: option.splits)
  moreover have "isOk self w' = (fst (isOk self w), w')"
    using same(2)
    by (cases "promise_of w self")
       (auto simp: isOk_def async_return_def Promise_then1_def Promise_then_def Thrower_def)
  moreover have "isErr self w' = (fst (isErr self w), w')"
    using same(2)
    by (cases "promise_of w self")
       (auto simp: isErr_def async_return_def Promise_then1_def Promise_then_def Thrower_def)
  ultimately show ?thesis
    using same new dist by (simp add: then_async_def match_def)
qed

text \<open>On a receiver that resolved to Success 10: \<open>r.map(val => val * 2)\<close>, then
  \<open>r.andThen(val => ok(val + 5))\<close>, then \<open>orTee\<close> on the instance the first call
  returned. The instances returned are at the addresses 1, 3 and 4 (the transformer of
  \<open>andThen\<close> constructed the one at 2), and the receiver at 0 still unwraps to 10.\<close>

theorem operators_never_mutate_receiver_witness:
  "calls [(0, CallMap (\<lambda>val w. (Returns (val * 2), w))),
          (0, CallAndThen (\<lambda>val w. instance_returned (ok (val + 5) w))),
          (1, CallOrTee (\<lambda>e w. (Returns (), w)))]
     \<lparr>heap = [\<lparr>priv_promise = Fulfilled (Ok (10::int))\<rparr>], user = ()\<rparr>
   = ([1, 3, 4],
      \<lparr>heap = [\<lparr>priv_promise = Fulfilled (Ok 10)\<rparr>, \<lparr>priv_promise = Fulfilled (Ok 20)\<rparr>,
               \<lparr>priv_promise = Fulfilled (Ok 15)\<rparr>, \<lparr>priv_promise = Fulfilled (Ok 15)\<rparr>,
               \<lparr>priv_promise = (Fulfilled (Ok 20) :: ((int, string) Result, string) promise)\<rparr>],
       user = ()\<rparr>) \<and>
   promise_of
      \<lparr>heap = [\<lparr>priv_promise = Fulfilled (Ok 10)\<rparr>, \<lparr>priv_promise = Fulfilled (Ok 20)\<rparr>,
               \<lparr>priv_promise = Fulfilled (Ok 15)\<rparr>, \<lparr>priv_promise = Fulfilled (Ok 15)\<rparr>,
               \<lparr>priv_promise = (Fulfilled (Ok 20) :: ((int, string) Result, string) promise)\<rparr>],
       user = ()\<rparr> 0 = Fulfilled (Ok (10::int)) \<and>
   fst (unwrap (\<lambda>v. None) 0
      \<lparr>heap = [\<lparr>priv_promise = Fulfilled (Ok 10)\<rparr>, \<lparr>priv_promise = Fulfilled (Ok 20)\<rparr>,
               \<lparr>priv_promise = Fulfilled (Ok 15)\<rparr>, \<lparr>priv_promise = Fulfilled (Ok 15)\<rparr>,
               \<lparr>priv_promise = (Fulfilled (Ok 20) :: ((int, string) Result, string) promise)\<rparr>],
       user = ()\<rparr>) = Fulfilled (10::int)"
proof -
  let ?cs = "[(0, CallMap (\<lambda>val w. (Returns (val * 2), w))),
          (0, CallAndThen (\<lambda>val w. instance_returned (ok (val + 5) w))),
          (1, CallOrTee (\<lambda>e w. (Returns (), w)))]
     :: (addr \<times> (int, string, string, unit, unit) operator) list"
  let ?w = "\<lparr>heap = [\<lparr>priv_promise =
      (Fulfilled (Ok (10::int)) :: ((int, string) Result, string) promise)\<rparr>], user = ()\<rparr>"
  let ?w' = "\<lparr>heap = [\<lparr>priv_promise = Fulfilled (Ok 10)\<rparr>, \<lparr>priv_promise = Fulfilled (Ok 20)\<rparr>,
               \<lparr>priv_promise = Fulfilled (Ok 15)\<rparr>, \<lparr>priv_promise = Fulfilled (Ok 15)\<rparr>,
               \<lparr>priv_promise = (Fulfilled (Ok (20::int)) :: ((int, string) Result, string) promise)\<rparr>],
       user = ()\<rparr>"
  have outside: "\<forall>(target, opr) \<in> set ?cs. outside_code opr"
    by (simp add: keeps_instances_def instance_returned_def ok_def new_ResultAsync_def)
  have live: "0 < length (heap ?w)"
    by simp
  have run: "calls ?cs ?w = ([1, 3, 4], ?w')"
    by (simp add: map_async_def andThen_def orTee_def Promise_then1_def Promise_then_def
        sync_map_def sync_match_def sync_orTee_def instance_returned_def ok_def
        new_ResultAsync_def Promise_resolve_def okSync_def promise_of_def)
  have before: "fst (unwrap (\<lambda>v. None) 0 ?w) = Fulfilled 10"
    by (simp add: unwrap_def async_return_def Promise_then1_def Promise_then_def
        sync_unwrap_def promise_of_def)
  from operators_never_mutate_receiver [OF outside live run,
      where okFn = Identity and errFn = Thrower and val = 0 and thenable = "\<lambda>v. None"
        and args_ok = "\<lambda>v w. (Returns (Value v), w)"
        and args_err = "\<lambda>e w. (Returns (Value 0), w)"]
    run before
  show ?thesis
    by (simp add: promise_of_def)
qed

section \<open>The type-inference helper\<close>

text \<open>
  C9. \<open>infer\<close> has no behaviour at run time: \<open>infer(fn)\<close> is \<open>fn\<close> itself, so for every
  function \<open>fn\<close> and every argument list \<open>infer(fn)(...args)\<close> is the call \<open>fn(...args)\<close>,
  with the same result and the same effects. (\<open>InferOkTypes\<close> and \<open>InferErrTypes\<close> are type
  aliases; there is nothing of them at run time to model.)
\<close>

theorem infer_identity:
  "infer fn = fn \<and> infer fn args w = fn args w"
  by (simp add: infer_def)


end
